theory Spec2Isabelle
  imports Complex_Main
begin

section \<open>Package bag: scaled points and unit conversion\<close>

text \<open>
  \<^verbatim>\<open>type ScaledPoint int\<close>. Go's \<^verbatim>\<open>int\<close> has 64 bits; no length in this development
  comes near that range, so scaled points are unbounded integers here.
\<close>

type_synonym ScaledPoint = int

text \<open>
  A \<^verbatim>\<open>float64\<close> is either a finite number or one of the three special values.
  Finite values are exact rationals: rounding to a 53-bit mantissa is not part of the
  model, so every statement below about \<^verbatim>\<open>float64\<close> arithmetic is a statement about
  the exact result of the same expression.
\<close>

datatype float64 = Finite rat | PosInf | NegInf | NaN

text \<open>\<^verbatim>\<open>const Factor ScaledPoint = 0xffff\<close>\<close>

definition Factor :: ScaledPoint where
  "Factor = 65535"

text \<open>Multiplication and division of a float by a positive finite constant.\<close>

fun fmul :: "float64 \<Rightarrow> rat \<Rightarrow> float64" where
  "fmul (Finite q) c = Finite (q * c)"
| "fmul PosInf c = PosInf"
| "fmul NegInf c = NegInf"
| "fmul NaN c = NaN"

fun fdiv :: "float64 \<Rightarrow> rat \<Rightarrow> float64" where
  "fdiv (Finite q) c = Finite (q / c)"
| "fdiv PosInf c = PosInf"
| "fdiv NegInf c = NegInf"
| "fdiv NaN c = NaN"

text \<open>
  The conversion \<^verbatim>\<open>ScaledPoint(f)\<close> of a float to an integer drops the fraction
  (towards zero). Go leaves the result for a value that is not finite to the
  implementation; the value below is the one of the amd64 port. Nothing proved in this
  file depends on it.
\<close>

definition trunc :: "rat \<Rightarrow> int" where
  "trunc q = (if 0 \<le> q then \<lfloor>q\<rfloor> else \<lceil>q\<rceil>)"

fun ScaledPoint_of_float :: "float64 \<Rightarrow> ScaledPoint" where
  "ScaledPoint_of_float (Finite q) = trunc q"
| "ScaledPoint_of_float PosInf = - (2 ^ 63)"
| "ScaledPoint_of_float NegInf = - (2 ^ 63)"
| "ScaledPoint_of_float NaN = - (2 ^ 63)"

text \<open>\<^verbatim>\<open>func ScaledPointFromFloat(f float64) ScaledPoint\<close>\<close>

definition ScaledPointFromFloat :: "float64 \<Rightarrow> ScaledPoint" where
  "ScaledPointFromFloat f = ScaledPoint_of_float (fmul f (of_int Factor))"

text \<open>\<^verbatim>\<open>func (s ScaledPoint) ToPT() float64\<close>\<close>

definition ToPT :: "ScaledPoint \<Rightarrow> float64" where
  "ToPT s = fdiv (Finite (of_int s)) (of_int Factor)"

subsection \<open>Strings\<close>

text \<open>
  \<^verbatim>\<open>strings.ToLower\<close> on ASCII text: the letters A to Z are mapped to a to z, every other
  byte is kept.
\<close>

definition lower_char :: "char \<Rightarrow> char" where
  "lower_char c =
     (let n = (of_char c :: nat) in if 65 \<le> n \<and> n \<le> 90 then char_of (n + 32) else c)"

definition ToLower :: "string \<Rightarrow> string" where
  "ToLower s = map lower_char s"

definition is_digit :: "char \<Rightarrow> bool" where
  "is_digit c = (48 \<le> (of_char c :: nat) \<and> (of_char c :: nat) \<le> 57)"

definition digit_val :: "char \<Rightarrow> nat" where
  "digit_val c = of_char c - 48"

definition digits_val :: "string \<Rightarrow> nat" where
  "digits_val s = foldl (\<lambda>a c. 10 * a + digit_val c) 0 s"

text \<open>
  \<^verbatim>\<open>strconv.ParseFloat(s, 64)\<close> belongs to Go's library. The model covers the decimal
  notation without exponent (an optional sign, digits with an optional point, at least
  one digit) and the special values, which Go accepts in any letter case; \<open>Sp\<close> only
  passes lower-case text. Go also accepts exponents and the hexadecimal notation; the
  model answers \<open>None\<close> (a syntax error) for them, so nothing is claimed below about
  such inputs.
\<close>

definition parse_unsigned :: "string \<Rightarrow> rat option" where
  "parse_unsigned s =
     (let ip = takeWhile is_digit s; rest = dropWhile is_digit s in
      case rest of
        [] \<Rightarrow> if ip = [] then None else Some (of_nat (digits_val ip))
      | c # fp \<Rightarrow>
          if c = CHR ''.'' \<and> list_all is_digit fp \<and> (ip \<noteq> [] \<or> fp \<noteq> [])
          then Some (of_nat (digits_val ip) + of_nat (digits_val fp) / 10 ^ length fp)
          else None)"

definition ParseFloat :: "string \<Rightarrow> float64 option" where
  "ParseFloat s =
     (if s = ''inf'' \<or> s = ''+inf'' \<or> s = ''infinity'' \<or> s = ''+infinity'' then Some PosInf
      else if s = ''-inf'' \<or> s = ''-infinity'' then Some NegInf
      else if s = ''nan'' then Some NaN
      else case s of
        [] \<Rightarrow> None
      | c # cs \<Rightarrow>
          if c = CHR ''-'' then map_option (\<lambda>q. Finite (- q)) (parse_unsigned cs)
          else if c = CHR ''+'' then map_option Finite (parse_unsigned cs)
          else map_option Finite (parse_unsigned s))"

subsection \<open>The unit pattern\<close>

text \<open>
  \<^verbatim>\<open>unitRE = regexp.MustCompile("(.*?)(mm|cm|in|pt|px|pc|m)")\<close>.
  \<open>unit_at\<close> is the alternation of the second group tried at the head of a text: the
  first alternative, in the order of the pattern, that is a prefix of the text.
\<close>

definition unit_names :: "string list" where
  "unit_names = [''mm'', ''cm'', ''in'', ''pt'', ''px'', ''pc'', ''m'']"

definition unit_at :: "string \<Rightarrow> string option" where
  "unit_at s = find (\<lambda>u. take (length u) s = u) unit_names"

text \<open>
  \<^verbatim>\<open>unitRE.FindAllStringSubmatch(unit, -1)\<close>: all successive matches, each as the pair
  of its two groups. The first group is lazy, so a match ends at the first position
  where a unit name starts; a dot does not match a line feed, so the first group starts
  after the last line feed before that position (\<open>acc\<close> collects it). The search for
  the next match starts where the previous one ended.
\<close>

fun FindAllStringSubmatch :: "string \<Rightarrow> string \<Rightarrow> (string \<times> string) list" where
  "FindAllStringSubmatch acc [] = []"
| "FindAllStringSubmatch acc (c # cs) =
     (case unit_at (c # cs) of
        Some u \<Rightarrow> (acc, u) # FindAllStringSubmatch [] (drop (length u - 1) cs)
      | None \<Rightarrow> FindAllStringSubmatch (if c = CHR 0x0A then [] else acc @ [c]) cs)"

datatype conv_error =
    ErrConversion_len_m nat
  | ErrConversion_len_m0 nat
  | ErrConversion_parse_float string
  | ErrConversion

text \<open>
  \<^verbatim>\<open>func Sp(unit string) (ScaledPoint, error)\<close>. Every match of a pattern with two
  groups has three entries, so the test \<^verbatim>\<open>len(m[0]) != 3\<close> never fires; the
  constructor \<open>ErrConversion_len_m0\<close> is kept for the error it would return.
\<close>

definition Sp :: "string \<Rightarrow> conv_error + ScaledPoint" where
  "Sp unit =
     (let m = FindAllStringSubmatch [] (ToLower unit) in
      if length m \<noteq> 1 then Inl (ErrConversion_len_m (length m))
      else
        (case ParseFloat (fst (hd m)) of
           None \<Rightarrow> Inl (ErrConversion_parse_float (fst (hd m)))
         | Some l \<Rightarrow>
            (let unitstring = snd (hd m); F = of_int Factor in
             if unitstring = ''pt'' then Inr (ScaledPoint_of_float (fmul l F))
             else if unitstring = ''in'' then Inr (ScaledPoint_of_float (fmul (fmul l 72) F))
             else if unitstring = ''mm'' then
               Inr (ScaledPoint_of_float (fmul (fmul (fdiv (fdiv l 10) (254 / 100)) 72) F))
             else if unitstring = ''cm'' then
               Inr (ScaledPoint_of_float (fmul (fmul (fdiv l (254 / 100)) 72) F))
             else if unitstring = ''m'' then
               Inr (ScaledPoint_of_float (fmul (fmul (fdiv (fmul l 100) (254 / 100)) 72) F))
             else if unitstring = ''px'' then
               Inr (ScaledPoint_of_float (fmul (fdiv (fmul l 96) 72) F))
             else if unitstring = ''pc'' then Inr (ScaledPoint_of_float (fmul (fmul l 12) F))
             else Inl ErrConversion)))"

text \<open>\<^verbatim>\<open>math.Round\<close>: to the nearest integer, halves away from zero.\<close>

definition Round :: "rat \<Rightarrow> int" where
  "Round q = (if 0 \<le> q then \<lfloor>q + 1 / 2\<rfloor> else - \<lfloor>- q + 1 / 2\<rfloor>)"

fun show_nat :: "nat \<Rightarrow> string" where
  "show_nat n =
     (if n < 10 then [char_of (48 + n)] else show_nat (n div 10) @ [char_of (48 + n mod 10)])"

declare show_nat.simps [simp del]

text \<open>
  \<^verbatim>\<open>func (s ScaledPoint) String() string\<close>: the length in points, rounded to hundredths,
  written by \<^verbatim>\<open>strconv.FormatFloat(rounded, 'f', -1, 64)\<close> with as few digits as
  identify the number: the integer part, then at most two decimals without trailing
  zeros. The rounded value carries the sign of \<open>s\<close> also when it is zero, and Go writes
  a negative zero as \<^verbatim>\<open>-0\<close>.
\<close>

definition ScaledPoint_String :: "ScaledPoint \<Rightarrow> string" where
  "ScaledPoint_String s =
     (let k = nat \<bar>Round (100 * of_int s / of_int Factor)\<bar>;
          frac = (if k mod 100 = 0 then []
                  else CHR ''.'' # char_of (48 + k mod 100 div 10) #
                       (if k mod 10 = 0 then [] else [char_of (48 + k mod 10)]))
      in (if s < 0 then ''-'' else []) @ show_nat (k div 100) @ frac)"


section \<open>Package document: font families\<close>

datatype FontStyle = FontStyleNormal | FontStyleItalic | FontStyleOblique

text \<open>
  \<^verbatim>\<open>type FontSource struct\<close>. The cached \<^verbatim>\<open>face\<close> is left to the loader (see
  \<open>LoadFace\<close> below). \<open>SizeAdjust\<close> is the field that \<^verbatim>\<open>BuildNodelistFromString\<close>
  reads; the revision of the struct among the sources does not declare it yet.
\<close>

record FontSource =
  Name :: string
  FontFeatures :: "string list"
  Source :: string
  Index :: int
  SizeAdjust :: rat

text \<open>
  \<^verbatim>\<open>type FontFamily struct\<close>. \<open>familyMember\<close> is a map of maps and starts as \<^verbatim>\<open>nil\<close>
  (\<open>None\<close>). An inner entry that is absent and one that holds a \<^verbatim>\<open>nil\<close> font
  source read the same, so the inner maps go to font sources directly.
\<close>

record FontFamily =
  FamilyID :: int
  FamilyName :: string
  familyMember :: "(int \<rightharpoonup> (FontStyle \<rightharpoonup> FontSource)) option"

text \<open>
  Errors and the two ways of not returning a value at all: a run-time panic and a loop
  that does not end. The first three are Go error values.
\<close>

datatype error =
    ErrEmptyFF
  | ErrUnfulfilledFamilyRequest
  | LoadFaceError string
  | Panic string
  | NoReturn

text \<open>\<^verbatim>\<open>func (ff *FontFamily) AddMember(fontsource *FontSource, weight int, style FontStyle)\<close>\<close>

definition AddMember :: "FontFamily \<Rightarrow> FontSource option \<Rightarrow> int \<Rightarrow> FontStyle \<Rightarrow> FontFamily" where
  "AddMember ff fontsource weight style =
     (let fm = (case familyMember ff of None \<Rightarrow> Map.empty | Some m \<Rightarrow> m);
          inner = (case fm weight of None \<Rightarrow> Map.empty | Some i \<Rightarrow> i)
      in ff\<lparr>familyMember := Some (fm(weight \<mapsto> inner(style := fontsource)))\<rparr>)"

text \<open>\<^verbatim>\<open>func (ff *FontFamily) GetFontSource(weight int, style FontStyle) (*FontSource, error)\<close>\<close>

definition GetFontSource :: "FontFamily \<Rightarrow> int \<Rightarrow> FontStyle \<Rightarrow> error + FontSource" where
  "GetFontSource ff weight style =
     (case familyMember ff of
        None \<Rightarrow> Inl ErrEmptyFF
      | Some fm \<Rightarrow>
         (case fm weight of
            None \<Rightarrow> Inl ErrUnfulfilledFamilyRequest
          | Some inner \<Rightarrow>
             (case inner style of
                None \<Rightarrow> Inl ErrUnfulfilledFamilyRequest
              | Some fs \<Rightarrow> Inr fs)))"

section \<open>Package node: the node list\<close>

datatype Action = ActionNone | ActionHyperlink

datatype Hyperlink = Hyperlink (URI: string)

type_synonym Color = string

text \<open>
  The two callbacks that the compiler attaches to start/stop nodes: the closure that
  returns \<^verbatim>\<open>col.PDFStringNonStroking() + " "\<close> and the one that returns a fixed text.
\<close>

datatype Callback = NoCallback | NonStrokingOf Color | Literal string

datatype Position = PDFOutputNone | PDFOutputPage

text \<open>
  The node variants. The arguments are the fields in the order given; a field that the
  constructor function of the package leaves at its zero value is 0, \<open>None\<close> or empty.
  \<open>OtherNode\<close> stands for the variants that the compiler never creates itself (Disc,
  HList, VList, Image, Lang).
\<close>

datatype node =
    Glyph bool int string nat ScaledPoint ScaledPoint ScaledPoint ScaledPoint
      \<comment> \<open>Hyphenate, Codepoint, Components, Font, Width, Height, Depth, YOffset\<close>
  | Glue ScaledPoint ScaledPoint ScaledPoint
      \<comment> \<open>Width, Stretch, Shrink\<close>
  | Kern ScaledPoint
  | Rule ScaledPoint
      \<comment> \<open>Width\<close>
  | Penalty int ScaledPoint
      \<comment> \<open>Penalty, Width\<close>
  | StartStop Action "nat option" "Hyperlink option" Position Callback
      \<comment> \<open>Action, StartNode, Value, Position, Callback\<close>
  | OtherNode string

text \<open>\<^verbatim>\<open>font.Font\<close>: the fields of a font instance that the compiler reads.\<close>

record Font =
  Face :: nat
  Size :: ScaledPoint
  Space :: ScaledPoint
  SpaceStretch :: ScaledPoint
  SpaceShrink :: ScaledPoint

text \<open>
  The state that the compiler works on. Every node gets its identity from one counter
  (\<^verbatim>\<open>ids\<close>) when it is created, so a node pointer is that number; \<open>content\<close>, \<open>nxt\<close>
  and \<open>prv\<close> are the fields of the node objects. \<open>usedFonts\<close> is the font cache of the
  document, from a face and a size to a font pointer; a \<^verbatim>\<open>nil\<close> map reads like the
  empty map. \<open>fonts\<close> holds the font instances made so far, a font pointer being the
  position in it.
\<close>

record state =
  next_id :: nat
  content :: "nat \<Rightarrow> node"
  nxt :: "nat \<Rightarrow> nat option"
  prv :: "nat \<Rightarrow> nat option"
  usedFonts :: "nat \<rightharpoonup> (ScaledPoint \<rightharpoonup> nat)"
  fonts :: "Font list"

text \<open>
  \<^verbatim>\<open>node.NewGlyph()\<close>, \<^verbatim>\<open>node.NewGlue()\<close> and the other constructor functions, together
  with the assignments to the fields of the new node that follow the call: the node
  takes the next identity and is linked to nothing.
\<close>

definition new_node :: "node \<Rightarrow> state \<Rightarrow> nat \<times> state" where
  "new_node c st =
     (next_id st,
      st\<lparr>next_id := Suc (next_id st),
         content := (content st)(next_id st := c),
         nxt := (nxt st)(next_id st := None),
         prv := (prv st)(next_id st := None)\<rparr>)"

text \<open>
  Modelled from the spec: \<^verbatim>\<open>node.InsertAfter(head, cur, insert)\<close> is not among the
  sources. The spec: ``insert a node (or sub-list) immediately after a given node,
  returning the new head (if the list was empty) and letting the caller update its own
  tail''. With no current node the list was empty and the inserted node is the head.
  Otherwise the inserted node is linked between the current node and its successor, and
  the head stays (the current node when no head is given).
\<close>

definition InsertAfter :: "nat option \<Rightarrow> nat option \<Rightarrow> nat \<Rightarrow> state \<Rightarrow> nat option \<times> state" where
  "InsertAfter head cur ins st =
     (case cur of
        None \<Rightarrow> (Some ins, st)
      | Some c \<Rightarrow>
         (let st1 = (case nxt st c of
                       None \<Rightarrow> st
                     | Some cn \<Rightarrow> st\<lparr>nxt := (nxt st)(ins := Some cn),
                                      prv := (prv st)(cn := Some ins)\<rparr>);
              st2 = st1\<lparr>nxt := (nxt st1)(c := Some ins), prv := (prv st1)(ins := Some c)\<rparr>
          in (case head of None \<Rightarrow> (Some c, st2) | Some h \<Rightarrow> (Some h, st2))))"

text \<open>
  Modelled from the spec: \<^verbatim>\<open>node.Tail(nl)\<close> is not among the sources. The spec: ``walk
  forward from any node to the last node reachable by the forward link''. On a list
  that runs into a cycle the walk does not end (\<open>None\<close>).
\<close>

partial_function (option) Tail :: "(nat \<Rightarrow> nat option) \<Rightarrow> nat \<Rightarrow> nat option" where
  "Tail nx e = (case nx e of None \<Rightarrow> Some e | Some n \<Rightarrow> Tail nx n)"

text \<open>
  Modelled from the spec: \<^verbatim>\<open>node.AppendLineEndAfter(head, cur)\<close> is not among the
  sources. The spec: ``append a Penalty/Glue sequence that forces a break''. The nodes
  of that sequence are a parameter (\<open>lineend\<close>); they are created and inserted one
  after the other, and the function returns the head and the last node.
\<close>

fun AppendLineEndAfter ::
  "node list \<Rightarrow> nat option \<Rightarrow> nat option \<Rightarrow> state \<Rightarrow> (nat option \<times> nat option) \<times> state" where
  "AppendLineEndAfter [] head cur st = ((head, cur), st)"
| "AppendLineEndAfter (c # cs) head cur st =
     (case new_node c st of (n, st1) \<Rightarrow>
      case InsertAfter head cur n st1 of (head1, st2) \<Rightarrow>
        AppendLineEndAfter cs head1 (Some n) st2)"

section \<open>Package frontend: settings and rich text\<close>

datatype SettingType =
    SettingDummy | SettingColor | SettingFontFamily | SettingFontWeight | SettingHAlign
  | SettingHyperlink | SettingIndentLeft | SettingIndentLeftRows | SettingLeading
  | SettingMarginBottom | SettingMarginLeft | SettingMarginRight | SettingMarginTop
  | SettingOpenTypeFeature | SettingPreserveWhitespace | SettingSize | SettingStyle
  | SettingYOffset

datatype HorizontalAlignment =
  HAlignDefault | HAlignLeft | HAlignRight | HAlignCenter | HAlignJustified

text \<open>
  The values of type \<^verbatim>\<open>any\<close> that a setting can hold, by their dynamic type. A pointer
  (to a font family or a colour) can be \<^verbatim>\<open>nil\<close>. \<open>VOther\<close> is a value of any other
  type, the untyped \<^verbatim>\<open>nil\<close> included.
\<close>

datatype val =
    VInt int
  | VFontWeight int
  | VFontFamily "FontFamily option"
  | VScaledPoint ScaledPoint
  | VString string
  | VStrings "string list"
  | VColor "Color option"
  | VHyperlink Hyperlink
  | VFontStyle FontStyle
  | VBool bool
  | VHAlign HorizontalAlignment
  | VOther

type_synonym TypesettingSettings = "SettingType \<rightharpoonup> val"

text \<open>
  \<^verbatim>\<open>type Text struct { Settings TypesettingSettings; Items []any }\<close>. A span owns its
  items, so rich text is a tree. The settings map of a span can be \<^verbatim>\<open>nil\<close> (\<open>None\<close>),
  as in a \<^verbatim>\<open>Text\<close> that was not made by \<^verbatim>\<open>NewText\<close>. An item is a string, a span, a node
  (its pointer) or a value of another type.
\<close>

datatype Text = Text (Settings: "TypesettingSettings option") (Items: "item list")
and item = IString string | IText Text | INode nat | IOther

text \<open>\<^verbatim>\<open>func NewText() *Text\<close>\<close>

definition NewText :: Text where
  "NewText = Text (Some Map.empty) []"

type_synonym Feature = string

text \<open>The shaped atoms that \<^verbatim>\<open>fnt.Shape\<close> returns.\<close>

record Atom =
  IsSpace :: bool
  Components :: string
  Codepoint :: int
  Advance :: ScaledPoint
  Height :: ScaledPoint
  Depth :: ScaledPoint
  Kernafter :: ScaledPoint
  Hyphenate :: bool

text \<open>
  What the compiler calls outside the sources, as parameters: the default features of
  the document, its colour table (\<^verbatim>\<open>fe.GetColor\<close>), the loader of faces
  (\<^verbatim>\<open>fe.LoadFace\<close>, a face pointer being a number), the maker of font instances
  (\<^verbatim>\<open>fe.Doc.CreateFont\<close>, as the instance it fills in), the shaper (\<^verbatim>\<open>fnt.Shape\<close>),
  \<^verbatim>\<open>harfbuzz.ParseFeature\<close> (whose error is only logged) and the nodes of a line end.
\<close>

record env =
  DefaultFeatures :: "Feature list"
  GetColor :: "string \<Rightarrow> Color option"
  LoadFace :: "FontSource \<Rightarrow> error + nat"
  CreateFont :: "nat \<Rightarrow> ScaledPoint \<Rightarrow> Font"
  Shape :: "Font \<Rightarrow> string \<Rightarrow> Feature list \<Rightarrow> Atom list"
  ParseFeature :: "string \<Rightarrow> Feature"
  lineend :: "node list"

text \<open>\<^verbatim>\<open>strings.Split(t, ",")\<close>\<close>

fun Split :: "string \<Rightarrow> string \<Rightarrow> string list" where
  "Split acc [] = [acc]"
| "Split acc (c # cs) = (if c = CHR '','' then acc # Split [] cs else Split (acc @ [c]) cs)"

text \<open>\<^verbatim>\<open>func parseHarfbuzzFontFeatures(featurelist any) []harfbuzz.Feature\<close>\<close>

fun parseHarfbuzzFontFeatures :: "env \<Rightarrow> val \<Rightarrow> Feature list" where
  "parseHarfbuzzFontFeatures e (VString t) = map (ParseFeature e) (Split [] t)"
| "parseHarfbuzzFontFeatures e (VStrings t) =
     concat (map (\<lambda>single. map (ParseFeature e) (Split [] single)) t)"
| "parseHarfbuzzFontFeatures e v = []"

text \<open>
  The local variables of \<^verbatim>\<open>BuildNodelistFromString\<close> that the loop over the settings
  fills. \<open>hyperlink\<close> is \<open>Some\<close> exactly when \<^verbatim>\<open>hasHyperlink\<close> is set.
\<close>

record resolved =
  fontweight :: int
  fontstyle :: FontStyle
  fontfamily :: "FontFamily option"
  fontsize :: ScaledPoint
  col :: "Color option"
  hyperlink :: "Hyperlink option"
  settingFontFeatures :: "Feature list"
  preserveWhitespace :: bool
  yoffset :: ScaledPoint

definition defaults :: resolved where
  "defaults =
     \<lparr>fontweight = 400, fontstyle = FontStyleNormal, fontfamily = None,
      fontsize = 12 * Factor, col = None, hyperlink = None, settingFontFeatures = [],
      preserveWhitespace = False, yoffset = 0\<rparr>"

definition type_assertion :: error where
  "type_assertion = Panic ''interface conversion''"

text \<open>
  One round of \<^verbatim>\<open>for k, v := range ts { switch k { ... } }\<close>. A type assertion on a
  value of another type panics. The default case only logs: \<^verbatim>\<open>Logger\<close> is the
  production logger, whose \<^verbatim>\<open>DPanicf\<close> does not panic.
\<close>

fun apply_setting :: "env \<Rightarrow> SettingType \<Rightarrow> val \<Rightarrow> resolved \<Rightarrow> error + resolved" where
  "apply_setting e SettingFontWeight v r =
     (case v of VInt t \<Rightarrow> Inr (r\<lparr>fontweight := t\<rparr>)
              | VFontWeight t \<Rightarrow> Inr (r\<lparr>fontweight := t\<rparr>)
              | _ \<Rightarrow> Inr r)"
| "apply_setting e SettingFontFamily v r =
     (case v of VFontFamily f \<Rightarrow> Inr (r\<lparr>fontfamily := f\<rparr>) | _ \<Rightarrow> Inl type_assertion)"
| "apply_setting e SettingSize v r =
     (case v of VScaledPoint s \<Rightarrow> Inr (r\<lparr>fontsize := s\<rparr>) | _ \<Rightarrow> Inl type_assertion)"
| "apply_setting e SettingColor v r =
     (case v of
        VString t \<Rightarrow> (case GetColor e t of Some c \<Rightarrow> Inr (r\<lparr>col := Some c\<rparr>) | None \<Rightarrow> Inr r)
      | VColor t \<Rightarrow> Inr (r\<lparr>col := t\<rparr>)
      | _ \<Rightarrow> Inr r)"
| "apply_setting e SettingHyperlink v r =
     (case v of VHyperlink h \<Rightarrow> Inr (r\<lparr>hyperlink := Some h\<rparr>) | _ \<Rightarrow> Inl type_assertion)"
| "apply_setting e SettingStyle v r =
     (case v of VFontStyle s \<Rightarrow> Inr (r\<lparr>fontstyle := s\<rparr>) | _ \<Rightarrow> Inl type_assertion)"
| "apply_setting e SettingOpenTypeFeature v r =
     Inr (r\<lparr>settingFontFeatures := parseHarfbuzzFontFeatures e v\<rparr>)"
| "apply_setting e SettingPreserveWhitespace v r =
     (case v of VBool b \<Rightarrow> Inr (r\<lparr>preserveWhitespace := b\<rparr>) | _ \<Rightarrow> Inl type_assertion)"
| "apply_setting e SettingYOffset v r =
     (case v of VScaledPoint s \<Rightarrow> Inr (r\<lparr>yoffset := s\<rparr>) | _ \<Rightarrow> Inl type_assertion)"
| "apply_setting e k v r = Inr r"

definition all_settings :: "SettingType list" where
  "all_settings =
     [SettingDummy, SettingColor, SettingFontFamily, SettingFontWeight, SettingHAlign,
      SettingHyperlink, SettingIndentLeft, SettingIndentLeftRows, SettingLeading,
      SettingMarginBottom, SettingMarginLeft, SettingMarginRight, SettingMarginTop,
      SettingOpenTypeFeature, SettingPreserveWhitespace, SettingSize, SettingStyle,
      SettingYOffset]"

text \<open>
  The whole loop over the entries of the map. Go visits them in no fixed order; each key
  writes its own variables and every panic is the same outcome, so the order of the
  list does not show in the result.
\<close>

fun range_settings ::
  "env \<Rightarrow> TypesettingSettings \<Rightarrow> SettingType list \<Rightarrow> resolved \<Rightarrow> error + resolved" where
  "range_settings e ts [] r = Inr r"
| "range_settings e ts (k # ks) r =
     (case ts k of
        None \<Rightarrow> range_settings e ts ks r
      | Some v \<Rightarrow>
         (case apply_setting e k v r of
            Inl err \<Rightarrow> Inl err
          | Inr r' \<Rightarrow> range_settings e ts ks r'))"

text \<open>
  Lines 434 to 445 of \<^verbatim>\<open>BuildNodelistFromString\<close>: the look-up of the font instance in
  \<^verbatim>\<open>fe.usedFonts\<close>. The first test replaces the whole cache by an empty map when the
  face has no entry; the second replaces the entry of the face by an empty map when the
  size has none.
\<close>

definition lookup2 :: "(nat \<rightharpoonup> (ScaledPoint \<rightharpoonup> nat)) \<Rightarrow> nat \<Rightarrow> ScaledPoint \<Rightarrow> nat option" where
  "lookup2 uf face sz = (case uf face of None \<Rightarrow> None | Some m \<Rightarrow> m sz)"

definition acquire_font :: "env \<Rightarrow> nat \<Rightarrow> ScaledPoint \<Rightarrow> state \<Rightarrow> nat \<times> state" where
  "acquire_font e face sz st =
     (let uf1 = (case usedFonts st face of None \<Rightarrow> Map.empty | Some m \<Rightarrow> usedFonts st);
          uf2 = (if lookup2 uf1 face sz = None then uf1(face \<mapsto> Map.empty) else uf1)
      in case lookup2 uf2 face sz of
           Some fnt \<Rightarrow> (fnt, st\<lparr>usedFonts := uf2\<rparr>)
         | None \<Rightarrow>
            (let fnt = length (fonts st);
                 inner = (case uf2 face of None \<Rightarrow> Map.empty | Some m \<Rightarrow> m)
             in (fnt, st\<lparr>usedFonts := uf2(face \<mapsto> inner(sz \<mapsto> fnt)),
                        fonts := fonts st @ [CreateFont e face sz]\<rparr>)))"

text \<open>
  The body of \<^verbatim>\<open>for _, r := range atoms\<close>: one atom, with the local variables
  \<open>head\<close>, \<open>cur\<close> and \<open>lastglue\<close>.
\<close>

type_synonym listvars = "nat option \<times> nat option \<times> nat option"

fun insert_new :: "node \<Rightarrow> nat option \<Rightarrow> nat option \<Rightarrow> state \<Rightarrow> (nat option \<times> nat) \<times> state" where
  "insert_new c head cur st =
     (case new_node c st of (n, st1) \<Rightarrow>
      case InsertAfter head cur n st1 of (head1, st2) \<Rightarrow> ((head1, n), st2))"

text \<open>The loop \<^verbatim>\<open>for i := 0; i < 4; i++\<close> of the tab case, \<open>i\<close> rounds of it.\<close>

fun rule_times :: "nat \<Rightarrow> ScaledPoint \<Rightarrow> listvars \<Rightarrow> state \<Rightarrow> listvars \<times> state" where
  "rule_times 0 w vars st = (vars, st)"
| "rule_times (Suc i) w (head, cur, lastglue) st =
     (case insert_new (Rule w) head cur st of ((head1, g), st1) \<Rightarrow>
        rule_times i w (head1, Some g, Some g) st1)"

definition atom_step ::
  "env \<Rightarrow> Font \<Rightarrow> nat \<Rightarrow> bool \<Rightarrow> ScaledPoint \<Rightarrow> Atom \<Rightarrow> listvars \<Rightarrow> state
     \<Rightarrow> (error + listvars) \<times> state" where
  "atom_step e fnt fntp preserve yoff r vars st =
     (case vars of (head, cur, lastglue) \<Rightarrow>
      if IsSpace r then
        (if preserve then
           (if Components r = '' '' then
              (case insert_new (Rule (Space fnt)) head cur st of ((head1, g), st1) \<Rightarrow>
                 (Inr (head1, Some g, Some g), st1))
            else if Components r = [CHR 0x09] then
              (case rule_times 4 (Space fnt) vars st of (v, st1) \<Rightarrow> (Inr v, st1))
            else if Components r = [CHR 0x0A] then
              (case AppendLineEndAfter (lineend e) head cur st of ((head1, cur1), st1) \<Rightarrow>
                 (Inr (head1, cur1, cur1), st1))
            else (Inl (Panic ''unhandled whitespace type''), st))
         else
           (if lastglue = None then
              (case insert_new (Glue (Space fnt) (SpaceStretch fnt) (SpaceShrink fnt)) head cur st of
                 ((head1, g), st1) \<Rightarrow> (Inr (head1, Some g, Some g), st1))
            else (Inr vars, st)))
      else
        (case insert_new (Glyph (Hyphenate r) (Codepoint r) (Components r) fntp
                            (Advance r) (Height r) (Depth r) yoff) head cur st of
           ((head1, n), st1) \<Rightarrow>
             if Kernafter r \<noteq> 0 then
               (case insert_new (Kern (Kernafter r)) head1 (Some n) st1 of
                  ((head2, k), st2) \<Rightarrow> (Inr (head2, Some k, None), st2))
             else (Inr (head1, Some n, None), st1)))"

fun atoms_loop ::
  "env \<Rightarrow> Font \<Rightarrow> nat \<Rightarrow> bool \<Rightarrow> ScaledPoint \<Rightarrow> Atom list \<Rightarrow> listvars \<Rightarrow> state
     \<Rightarrow> (error + listvars) \<times> state" where
  "atoms_loop e fnt fntp preserve yoff [] vars st = (Inr vars, st)"
| "atoms_loop e fnt fntp preserve yoff (r # rs) vars st =
     (case atom_step e fnt fntp preserve yoff r vars st of
        (Inl err, st1) \<Rightarrow> (Inl err, st1)
      | (Inr vars1, st1) \<Rightarrow> atoms_loop e fnt fntp preserve yoff rs vars1 st1)"

text \<open>
  Lines 422 to 429 of \<^verbatim>\<open>BuildNodelistFromString\<close>: the size after the size
  adjustment of the font source, and the list of features (the defaults of the
  document, then those of the font source, then those of the settings).
\<close>

definition adjusted_size :: "resolved \<Rightarrow> FontSource \<Rightarrow> ScaledPoint" where
  "adjusted_size r fs =
     (if SizeAdjust fs \<noteq> 0
      then ScaledPointFromFloat (fmul (ToPT (fontsize r)) (1 - SizeAdjust fs))
      else fontsize r)"

definition all_features :: "env \<Rightarrow> resolved \<Rightarrow> FontSource \<Rightarrow> Feature list" where
  "all_features e r fs =
     DefaultFeatures e @ parseHarfbuzzFontFeatures e (VStrings (FontFeatures fs))
       @ settingFontFeatures r"

text \<open>
  Lines 447 to 470: the start node of the hyperlink and the start node of the colour.
  When the hyperlink start is made \<^verbatim>\<open>head\<close> is still \<^verbatim>\<open>nil\<close>, so the insertion
  guarded by \<^verbatim>\<open>head != nil\<close> in that block never runs. The colour block inserts its
  node after the head when there is one and then makes the new node the head. The
  result is \<open>hyperlinkStart\<close>, \<open>head\<close> and the state.
\<close>

definition start_nodes :: "resolved \<Rightarrow> state \<Rightarrow> (nat option \<times> nat option) \<times> state" where
  "start_nodes r st =
     (case (case hyperlink r of
              None \<Rightarrow> ((None, None), st)
            | Some h \<Rightarrow>
               (case new_node (StartStop ActionHyperlink None (Some h) PDFOutputNone NoCallback) st of
                  (n, s) \<Rightarrow> ((Some n, Some n), s))) of
        ((hyperlinkStart, head0), st1) \<Rightarrow>
          (case col r of
             None \<Rightarrow> ((hyperlinkStart, head0), st1)
           | Some c \<Rightarrow>
              (case new_node (StartStop ActionNone None None PDFOutputPage (NonStrokingOf c)) st1 of
                 (n, s) \<Rightarrow>
                   ((hyperlinkStart, Some n),
                    (if head0 \<noteq> None then snd (InsertAfter head0 head0 n s) else s)))))"

text \<open>
  Lines 531 to 547: the stop node of the colour, whose insertion drops the head that
  \<^verbatim>\<open>InsertAfter\<close> returns, and the stop node of the hyperlink, which refers to the
  start. The result is the head that the function returns.
\<close>

definition stop_nodes ::
  "resolved \<Rightarrow> nat option \<Rightarrow> nat option \<Rightarrow> nat option \<Rightarrow> state \<Rightarrow> nat option \<times> state" where
  "stop_nodes r hyperlinkStart head cur st =
     (case (case col r of
              None \<Rightarrow> (cur, st)
            | Some c \<Rightarrow>
               (case new_node (StartStop ActionNone None None PDFOutputPage
                                 (Literal ''0 0 0 RG 0 0 0 rg '')) st of
                  (n, s) \<Rightarrow> (Some n, snd (InsertAfter head cur n s)))) of
        (cur1, st1) \<Rightarrow>
          (case hyperlink r of
             None \<Rightarrow> (head, st1)
           | Some h \<Rightarrow>
              (case new_node (StartStop ActionNone hyperlinkStart None PDFOutputNone NoCallback) st1 of
                 (n, s) \<Rightarrow> InsertAfter head cur1 n s)))"

text \<open>
  Lines 431 to 547: from the loaded face to the returned head.
\<close>

definition build_nodes ::
  "env \<Rightarrow> resolved \<Rightarrow> string \<Rightarrow> ScaledPoint \<Rightarrow> Feature list \<Rightarrow> nat \<Rightarrow> state
     \<Rightarrow> (error + nat option) \<times> state" where
  "build_nodes e r str sz fontfeatures face st =
     (case acquire_font e face sz st of (fntp, st1) \<Rightarrow>
      case start_nodes r st1 of ((hyperlinkStart, head), st2) \<Rightarrow>
      case atoms_loop e (fonts st1 ! fntp) fntp (preserveWhitespace r) (yoffset r)
             (Shape e (fonts st1 ! fntp) str fontfeatures) (head, head, None) st2 of
        (Inl err, st3) \<Rightarrow> (Inl err, st3)
      | (Inr (head1, cur1, lastglue), st3) \<Rightarrow>
          (case stop_nodes r hyperlinkStart head1 cur1 st3 of (head2, st4) \<Rightarrow> (Inr head2, st4)))"

text \<open>
  \<^verbatim>\<open>func (fe *Document) BuildNodelistFromString(ts TypesettingSettings, str string)
  (node.Node, error)\<close>. Without a font family among the settings \<^verbatim>\<open>fontfamily\<close> stays
  \<^verbatim>\<open>nil\<close> and the call of \<^verbatim>\<open>GetFontSource\<close> on it panics.
\<close>

definition BuildNodelistFromString ::
  "env \<Rightarrow> TypesettingSettings \<Rightarrow> string \<Rightarrow> state \<Rightarrow> (error + nat option) \<times> state" where
  "BuildNodelistFromString e ts str st =
     (case range_settings e ts all_settings defaults of
        Inl err \<Rightarrow> (Inl err, st)
      | Inr r \<Rightarrow>
     (case fontfamily r of
        None \<Rightarrow> (Inl (Panic ''nil pointer dereference''), st)
      | Some ff \<Rightarrow>
     (case GetFontSource ff (fontweight r) (fontstyle r) of
        Inl err \<Rightarrow> (Inl err, st)
      | Inr fs \<Rightarrow>
     (case LoadFace e fs of
        Inl err \<Rightarrow> (Inl err, st)
      | Inr face \<Rightarrow>
          build_nodes e r str (adjusted_size r fs) (all_features e r fs) face st))))"

text \<open>
  The local variables of the loop of \<^verbatim>\<open>Mknodes\<close>: \<open>head\<close>, \<open>tail\<close>,
  \<open>hyperlinkStartNode\<close> and \<open>hyperlinkDest\<close>.
\<close>

type_synonym mkvars = "nat option \<times> nat option \<times> nat option \<times> string"

text \<open>
  Lines 567 to 574 and 628 to 634: the stop node that closes the open hyperlink. The
  head that \<^verbatim>\<open>InsertAfter\<close> returns is dropped.
\<close>

definition close_hyperlink :: "nat option \<Rightarrow> nat option \<Rightarrow> nat \<Rightarrow> state \<Rightarrow> nat \<times> state" where
  "close_hyperlink head tail hyperlinkStartNode st =
     (case new_node (StartStop ActionNone (Some hyperlinkStartNode) None
                       PDFOutputNone NoCallback) st of
        (endHL, st1) \<Rightarrow> (endHL, snd (InsertAfter head tail endHL st1)))"

text \<open>
  Lines 605 to 612: the settings of the enclosing span are copied to the child where
  the child has no entry, then the hyperlink is deleted from the child. Writing into a
  \<^verbatim>\<open>nil\<close> map panics; reading from it and deleting in it do not.
\<close>

definition no_entries :: "TypesettingSettings \<Rightarrow> bool" where
  "no_entries m = list_all (\<lambda>k. case m k of None \<Rightarrow> True | Some v \<Rightarrow> False) all_settings"

definition inherit_settings ::
  "TypesettingSettings \<Rightarrow> TypesettingSettings option \<Rightarrow> error + TypesettingSettings option" where
  "inherit_settings newSettings child =
     (case child of
        None \<Rightarrow> if no_entries newSettings then Inr None
                else Inl (Panic ''assignment to entry in nil map'')
      | Some m \<Rightarrow>
          Inr (Some ((\<lambda>k. case m k of Some v \<Rightarrow> Some v | None \<Rightarrow> newSettings k)
                       (SettingHyperlink := None))))"

definition get_setting :: "TypesettingSettings option \<Rightarrow> SettingType \<Rightarrow> val option" where
  "get_setting s k = (case s of None \<Rightarrow> None | Some m \<Rightarrow> m k)"

text \<open>
  Lines 585 to 604: what a nested span does to the hyperlink state before the
  recursion. With no hyperlink open, a hyperlink setting of the span opens one. With one
  open, the setting is only compared with the open destination and nothing is done in
  either case.
\<close>

definition open_hyperlink ::
  "TypesettingSettings option \<Rightarrow> mkvars \<Rightarrow> state \<Rightarrow> (error + mkvars) \<times> state" where
  "open_hyperlink child vars st =
     (case vars of (head, tail, hyperlinkStartNode, hyperlinkDest) \<Rightarrow>
      (case get_setting child SettingHyperlink of
         None \<Rightarrow> (Inr vars, st)
       | Some (VHyperlink hl) \<Rightarrow>
          (if hyperlinkStartNode = None then
             (case new_node (StartStop ActionHyperlink None (Some hl) PDFOutputNone NoCallback) st of
                (startHL, st1) \<Rightarrow>
                  (case InsertAfter head tail startHL st1 of
                     (head1, st2) \<Rightarrow> (Inr (head1, Some startHL, Some startHL, URI hl), st2)))
           else (Inr vars, st))
       | Some _ \<Rightarrow> (Inl type_assertion, st)))"

text \<open>The copy \<^verbatim>\<open>newSettings\<close> of the settings of a span; a \<^verbatim>\<open>nil\<close> map has no entries.\<close>

definition copy_settings :: "TypesettingSettings option \<Rightarrow> TypesettingSettings" where
  "copy_settings s = (case s of None \<Rightarrow> Map.empty | Some m \<Rightarrow> m)"

text \<open>
  \<^verbatim>\<open>func (fe *Document) Mknodes(ts *Text) (head node.Node, tail node.Node, err error)\<close>.
  The function changes the settings of the nested spans, so it also returns the tree as
  it is afterwards. An item of an unknown type is only logged.
\<close>

fun Mknodes :: "env \<Rightarrow> Text \<Rightarrow> state \<Rightarrow> Text \<times> (error + nat option \<times> nat option) \<times> state"
and Mknodes_items ::
  "env \<Rightarrow> TypesettingSettings \<Rightarrow> item list \<Rightarrow> mkvars \<Rightarrow> state
     \<Rightarrow> item list \<times> (error + mkvars) \<times> state" where
  "Mknodes e (Text s its) st =
     (if length its = 0 then (Text s its, Inr (None, None), st)
      else
        (case Mknodes_items e (copy_settings s) its (None, None, None, []) st of
           (its', Inl err, st1) \<Rightarrow> (Text s its', Inl err, st1)
         | (its', Inr (head, tail, hyperlinkStartNode, hyperlinkDest), st1) \<Rightarrow>
            (case hyperlinkStartNode of
               None \<Rightarrow> (Text s its', Inr (head, tail), st1)
             | Some hs \<Rightarrow>
                (case close_hyperlink head tail hs st1 of
                   (endHL, st2) \<Rightarrow> (Text s its', Inr (head, Some endHL), st2)))))"
| "Mknodes_items e newSettings [] vars st = ([], Inr vars, st)"
| "Mknodes_items e newSettings (IString t # rest) (head, tail, hyperlinkStartNode, hyperlinkDest) st =
     (case (case hyperlinkStartNode of
              None \<Rightarrow> (tail, st)
            | Some hs \<Rightarrow> (case close_hyperlink head tail hs st of (endHL, s) \<Rightarrow> (Some endHL, s))) of
        (tail1, st1) \<Rightarrow>
      (case BuildNodelistFromString e newSettings t st1 of
           (Inl err, st2) \<Rightarrow> (IString t # rest, Inl err, st2)
         | (Inr None, st2) \<Rightarrow>
             (case Mknodes_items e newSettings rest (head, tail1, None, hyperlinkDest) st2 of
                (rest', r) \<Rightarrow> (IString t # rest', r))
         | (Inr (Some nl), st2) \<Rightarrow>
             (case InsertAfter head tail1 nl st2 of (head1, st3) \<Rightarrow>
              case Tail (nxt st3) nl of
                None \<Rightarrow> (IString t # rest, Inl NoReturn, st3)
              | Some tn \<Rightarrow>
                 (case Mknodes_items e newSettings rest (head1, Some tn, None, hyperlinkDest) st3 of
                    (rest', r) \<Rightarrow> (IString t # rest', r)))))"
| "Mknodes_items e newSettings (IText (Text cs cits) # rest) vars st =
     (case open_hyperlink cs vars st of
        (Inl err, st1) \<Rightarrow> (IText (Text cs cits) # rest, Inl err, st1)
      | (Inr (head, tail, hyperlinkStartNode, hyperlinkDest), st1) \<Rightarrow>
         (case inherit_settings newSettings cs of
            Inl err \<Rightarrow> (IText (Text cs cits) # rest, Inl err, st1)
          | Inr cs' \<Rightarrow>
             (case Mknodes e (Text cs' cits) st1 of
                (t', Inl err, st2) \<Rightarrow> (IText t' # rest, Inl err, st2)
              | (t', Inr (nl, tend), st2) \<Rightarrow>
                 (case nl of
                    None \<Rightarrow>
                      (case Mknodes_items e newSettings rest
                              (head, tail, hyperlinkStartNode, hyperlinkDest) st2 of
                         (rest', r) \<Rightarrow> (IText t' # rest', r))
                  | Some n \<Rightarrow>
                      (case InsertAfter head tail n st2 of (head1, st3) \<Rightarrow>
                       case Mknodes_items e newSettings rest
                              (head1, tend, hyperlinkStartNode, hyperlinkDest) st3 of
                         (rest', r) \<Rightarrow> (IText t' # rest', r))))))"
| "Mknodes_items e newSettings (INode t # rest) (head, tail, hyperlinkStartNode, hyperlinkDest) st =
     (case InsertAfter head tail t st of (head1, st1) \<Rightarrow>
      case Mknodes_items e newSettings rest (head1, Some t, hyperlinkStartNode, hyperlinkDest) st1 of
        (rest', r) \<Rightarrow> (INode t # rest', r))"
| "Mknodes_items e newSettings (IOther # rest) vars st =
     (case Mknodes_items e newSettings rest vars st of (rest', r) \<Rightarrow> (IOther # rest', r))"


section \<open>Properties of the unit system\<close>

lemmas Sp_eval =
  Sp_def ToLower_def lower_char_def unit_at_def unit_names_def ParseFloat_def
  parse_unsigned_def is_digit_def digits_val_def digit_val_def Factor_def trunc_def

text \<open>
  Claim C6, as stated: one point is 65536 base units, \<^verbatim>\<open>Sp("1pt")\<close> is 65536 and
  \<^verbatim>\<open>ScaledPoint(65536).ToPT()\<close> is 1.0. The constant \<^verbatim>\<open>Factor\<close> is \<^verbatim>\<open>0xffff\<close>, so
  both parts fail.
\<close>

theorem C6_counterexample:
  "Sp ''1pt'' \<noteq> Inr 65536 \<and> ToPT 65536 \<noteq> Finite 1"
  by (simp add: Sp_eval ToPT_def)

text \<open>
  Claim C6, amended: the unit is 1/65535 of a point. \<^verbatim>\<open>Factor\<close> is 65535,
  \<^verbatim>\<open>Sp("1pt")\<close> returns 65535 and \<^verbatim>\<open>ScaledPoint(65535).ToPT()\<close> is 1.0, as the comments
  of \<^verbatim>\<open>ScaledPoint\<close> and \<^verbatim>\<open>ToPT\<close> say.
\<close>

theorem C6_unit_is_65535th:
  "Factor = 65535 \<and> Sp ''1pt'' = Inr Factor \<and> ToPT Factor = Finite 1
   \<and> ToPT (2 * Factor) = Finite 2"
  by (simp add: Sp_eval ToPT_def)

end
